theory Spec2Isabelle
  imports Main "HOL-Library.AList" "HOL-Library.Sublist"
begin

section \<open>Values, errors and the process state\<close>

text \<open>
  The ingredient class of \<^verbatim>\<open>MAST/ingredients/baseingredient.py\<close> is a thin
  layer over the operating system (\<^verbatim>\<open>os\<close>, \<^verbatim>\<open>subprocess\<close>) and over
  modules of the package that the methods import when they are called
  (\<^verbatim>\<open>vasp_checker\<close>, \<^verbatim>\<open>vasp_error\<close>, \<^verbatim>\<open>queue_commands\<close>,
  \<^verbatim>\<open>dirutil\<close>). A method is modelled as a function from the process state to
  an outcome and the state it leaves behind, so that what a raise leaves
  behind can be stated too. The \<^verbatim>\<open>import\<close> statements inside the
  methods are taken to succeed.
\<close>

type_synonym path = string

text \<open>Python values that occur as entries of \<^verbatim>\<open>program_keys\<close> or as results.\<close>

datatype pyval = PyNone | PyBool bool | PyInt int | PyStr string | PyList "pyval list"

text \<open>
  Exceptions. \<^verbatim>\<open>MASTError(classname, message)\<close> keeps its two arguments;
  \<open>OtherError\<close> stands for whatever else a collaborator raises.
\<close>

datatype error = MASTError string string | OSError | KeyError string | OtherError string

text \<open>
  The part of the world the methods see: the directories and the regular
  files that exist (absolute paths, compared as strings), the set of locked
  directories, the working directory of the process and the lines printed
  on standard output.
\<close>

record world =
  dirs :: "path set"
  files :: "path set"
  locked :: "path set"
  cwd :: path
  stdout :: "string list"

text \<open>
  The configuration record \<^verbatim>\<open>self.keywords\<close>: the keys the methods read.
  \<^verbatim>\<open>structure\<close> is an object of the external structure library, kept
  opaque as \<open>'st\<close>. \<^verbatim>\<open>child_dict\<close> is \<^verbatim>\<open>None\<close> or a reference to a
  dictionary object in the store of section "Children".
\<close>

record 'st "keywords" =
  name :: path
  program :: string
  program_keys :: "string \<rightharpoonup> pyval"
  "structure" :: "'st option"
  child_dict :: "nat option"

record 'st ingredient =
  class_name :: string
  "keywords" :: "'st keywords"

text \<open>
  Calls that leave the ingredient class, in the order they are made. The
  log is kept beside the world and is not visible to the collaborators.
\<close>

datatype 'st call =
    VC_get_structure_from_file path
  | VC_forward_parent_structure path path string
  | VC_forward_parent_energy path path string
  | VC_images_complete path pyval
  | VC_is_complete path
  | VC_is_ready_to_run path
  | VC_set_up_program_input "'st keywords"
  | VC_get_path_to_write_neb_parent_energy path pyval pyval
  | VC_set_up_program_input_neb "'st keywords" "'st list"
  | VE_loop_through_errors path "int option"
  | QC_direct_shell_command
  | QC_queue_submission_command
  | Popen_wait string

record 'st pystate =
  world :: world
  calls :: "'st call list"

type_synonym ('st, 'a) prog = "'st pystate \<Rightarrow> (error + 'a) \<times> 'st pystate"

definition return :: "'a \<Rightarrow> ('st, 'a) prog" where
  "return x = (\<lambda>s. (Inr x, s))"

definition raise :: "error \<Rightarrow> ('st, 'a) prog" where
  "raise e = (\<lambda>s. (Inl e, s))"

text \<open>Sequencing: an exception of the first statement skips the rest.\<close>

definition pbind :: "('st, 'a) prog \<Rightarrow> ('a \<Rightarrow> ('st, 'b) prog) \<Rightarrow> ('st, 'b) prog" where
  "pbind m f = (\<lambda>s. case m s of (Inl e, s') \<Rightarrow> (Inl e, s') | (Inr x, s') \<Rightarrow> f x s')"

text \<open>\<^verbatim>\<open>try: m  except OSError: h\<close>; other exceptions pass through.\<close>

definition try_except_OSError :: "('st, 'a) prog \<Rightarrow> ('st, 'a) prog \<Rightarrow> ('st, 'a) prog" where
  "try_except_OSError m h =
     (\<lambda>s. case m s of (Inl OSError, s') \<Rightarrow> h s' | r \<Rightarrow> r)"

text \<open>A call that only reads the world, and a call that may change it.\<close>

definition observe :: "(world \<Rightarrow> error + 'a) \<Rightarrow> ('st, 'a) prog" where
  "observe f = (\<lambda>s. (f (world s), s))"

definition mutate :: "(world \<Rightarrow> (error + 'a) \<times> world) \<Rightarrow> ('st, 'a) prog" where
  "mutate f = (\<lambda>s. case f (world s) of (r, w') \<Rightarrow> (r, s\<lparr>world := w'\<rparr>))"

definition logcall :: "'st call \<Rightarrow> ('st, 'a) prog \<Rightarrow> ('st, 'a) prog" where
  "logcall c m = (\<lambda>s. m (s\<lparr>calls := calls s @ [c]\<rparr>))"

section \<open>The operating system\<close>

text \<open>
  Paths are strings. A relative path is resolved against the working
  directory; \<^verbatim>\<open>.\<close>, \<^verbatim>\<open>..\<close>, doubled slashes and symbolic links are not
  normalised, and permissions are not modelled.
\<close>

definition is_abs :: "path \<Rightarrow> bool" where
  "is_abs p = (case p of [] \<Rightarrow> False | c # _ \<Rightarrow> c = CHR ''/'')"

definition abspath :: "world \<Rightarrow> path \<Rightarrow> path" where
  "abspath w p = (if is_abs p then p else cwd w @ ''/'' @ p)"

text \<open>The proper ancestors of a path: its non-empty prefixes that end before a slash.\<close>

fun ancestors_from :: "path \<Rightarrow> path \<Rightarrow> path list" where
  "ancestors_from acc [] = []"
| "ancestors_from acc (c # cs) =
     (if c = CHR ''/'' \<and> acc \<noteq> [] then [acc] else []) @ ancestors_from (acc @ [c]) cs"

definition ancestors :: "path \<Rightarrow> path list" where
  "ancestors p = ancestors_from [] p"

definition os_path_exists :: "path \<Rightarrow> world \<Rightarrow> error + bool" where
  "os_path_exists p w = Inr (abspath w p \<in> dirs w \<or> abspath w p \<in> files w)"

text \<open>\<^verbatim>\<open>os.getcwd()\<close> fails when the working directory has been removed.\<close>

definition os_getcwd :: "world \<Rightarrow> error + path" where
  "os_getcwd w = (if cwd w \<in> dirs w then Inr (cwd w) else Inl OSError)"

definition os_chdir :: "path \<Rightarrow> world \<Rightarrow> (error + unit) \<times> world" where
  "os_chdir p w =
     (if abspath w p \<in> dirs w then (Inr (), w\<lparr>cwd := abspath w p\<rparr>) else (Inl OSError, w))"

text \<open>
  \<^verbatim>\<open>os.makedirs(p)\<close>: fails when the leaf exists (as a directory or as a
  file) or when an ancestor is a regular file; otherwise creates the leaf and
  the missing ancestors.
\<close>

definition os_makedirs :: "path \<Rightarrow> world \<Rightarrow> (error + unit) \<times> world" where
  "os_makedirs p w =
     (let q = abspath w p in
      if q \<in> dirs w \<or> q \<in> files w then (Inl OSError, w)
      else if set (ancestors q) \<inter> files w \<noteq> {} then (Inl OSError, w)
      else (Inr (), w\<lparr>dirs := insert q (set (ancestors q) \<union> dirs w)\<rparr>))"

definition print :: "string \<Rightarrow> world \<Rightarrow> (error + unit) \<times> world" where
  "print line w = (Inr (), w\<lparr>stdout := stdout w @ [line]\<rparr>)"

section \<open>Collaborators\<close>

text \<open>
  The checker, error-handler and submission modules are not part of the
  ingredient class; the methods are parametrised by them. Every one of them
  may raise. The checker's predicates and its path rule, and the two
  command lookups, are readers: they are given the world and return a value.
  The others, the error handler's scan included, return the world they leave
  behind, about which nothing is assumed.
\<close>

record 'st env =
  vc_get_structure_from_file :: "path \<Rightarrow> world \<Rightarrow> error + 'st"
  vc_forward_parent_structure :: "path \<Rightarrow> path \<Rightarrow> string \<Rightarrow> world \<Rightarrow> (error + unit) \<times> world"
  vc_forward_parent_energy :: "path \<Rightarrow> path \<Rightarrow> string \<Rightarrow> world \<Rightarrow> (error + unit) \<times> world"
  vc_images_complete :: "path \<Rightarrow> pyval \<Rightarrow> world \<Rightarrow> error + bool"
  vc_is_complete :: "path \<Rightarrow> world \<Rightarrow> error + bool"
  vc_is_ready_to_run :: "path \<Rightarrow> world \<Rightarrow> error + bool"
  vc_set_up_program_input :: "'st keywords \<Rightarrow> world \<Rightarrow> (error + pyval) \<times> world"
  vc_get_path_to_write_neb_parent_energy :: "path \<Rightarrow> pyval \<Rightarrow> pyval \<Rightarrow> world \<Rightarrow> error + path"
  vc_set_up_program_input_neb :: "'st keywords \<Rightarrow> 'st list \<Rightarrow> world \<Rightarrow> (error + pyval) \<times> world"
  ve_loop_through_errors :: "path \<Rightarrow> int option \<Rightarrow> world \<Rightarrow> (error + int) \<times> world"
  qc_direct_shell_command :: "world \<Rightarrow> error + string"
  qc_queue_submission_command :: "world \<Rightarrow> error + string"
  popen_wait :: "string \<Rightarrow> world \<Rightarrow> (error + int) \<times> world"

section \<open>The ingredient's methods\<close>

text \<open>
  \<^verbatim>\<open>run(self, mode='serial', curdir=os.getcwd())\<close>. The parameter
  \<open>curdir\<close> is assigned \<^verbatim>\<open>os.getcwd()\<close> in the first statement of the body.
  \<^verbatim>\<open>Popen(..., shell=True)\<close> followed by \<^verbatim>\<open>wait()\<close> is one call of
  \<open>popen_wait\<close>, whose exit status is dropped. There is no
  \<^verbatim>\<open>try\<close> in the body.
\<close>

definition run :: "'st env \<Rightarrow> 'st ingredient \<Rightarrow> string \<Rightarrow> path \<Rightarrow> ('st, unit) prog" where
  "run env ing mode curdir =
     pbind (observe os_getcwd) (\<lambda>curdir.
     pbind (mutate (os_chdir (name (keywords ing)))) (\<lambda>_.
     pbind (if mode = ''noqsub'' then
              pbind (logcall QC_direct_shell_command (observe (qc_direct_shell_command env)))
                (\<lambda>programpath.
              pbind (logcall (Popen_wait programpath) (mutate (popen_wait env programpath)))
                (\<lambda>_. return ()))
            else if mode = ''serial'' then
              pbind (logcall QC_queue_submission_command
                       (observe (qc_queue_submission_command env)))
                (\<lambda>queuesub.
              pbind (logcall (Popen_wait queuesub) (mutate (popen_wait env queuesub)))
                (\<lambda>_. return ()))
            else return ()) (\<lambda>_.
     mutate (os_chdir curdir))))"

text \<open>
  \<^verbatim>\<open>write_directory\<close>: \<^verbatim>\<open>os.makedirs\<close> inside \<^verbatim>\<open>try\<close>; an
  \<^verbatim>\<open>OSError\<close> is answered by printing one line and returning.
\<close>

definition write_directory :: "'st ingredient \<Rightarrow> ('st, unit) prog" where
  "write_directory ing =
     try_except_OSError
       (mutate (os_makedirs (name (keywords ing))))
       (pbind (mutate (print ''Directory exists.'')) (\<lambda>_. return ()))"

definition get_structure_from_file :: "'st env \<Rightarrow> 'st ingredient \<Rightarrow> path \<Rightarrow> ('st, 'st) prog" where
  "get_structure_from_file env ing filepath =
     (if program (keywords ing) = ''vasp'' then
        logcall (VC_get_structure_from_file filepath)
          (observe (vc_get_structure_from_file env filepath))
      else raise (MASTError (class_name ing)
                   ''Program not recognized (in get_structure_from_file)''))"

definition forward_parent_structure ::
  "'st env \<Rightarrow> 'st ingredient \<Rightarrow> path \<Rightarrow> path \<Rightarrow> string \<Rightarrow> ('st, unit) prog" where
  "forward_parent_structure env ing parentpath childpath newname =
     (if program (keywords ing) = ''vasp'' then
        pbind (logcall (VC_forward_parent_structure parentpath childpath newname)
                 (mutate (vc_forward_parent_structure env parentpath childpath newname)))
          (\<lambda>_. return ())
      else raise (MASTError (class_name ing)
                   ''Program not recognized (in forward_parent_structure)''))"

definition forward_parent_energy ::
  "'st env \<Rightarrow> 'st ingredient \<Rightarrow> path \<Rightarrow> path \<Rightarrow> string \<Rightarrow> ('st, unit) prog" where
  "forward_parent_energy env ing parentpath childpath newname =
     (if program (keywords ing) = ''vasp'' then
        pbind (logcall (VC_forward_parent_energy parentpath childpath newname)
                 (mutate (vc_forward_parent_energy env parentpath childpath newname)))
          (\<lambda>_. return ())
      else raise (MASTError (class_name ing)
                   ''Program not recognized (in forward_parent_structure)''))"

text \<open>
  \<^verbatim>\<open>is_complete\<close>. With \<^verbatim>\<open>images\<close> among the program keys the checker's
  \<^verbatim>\<open>images_complete\<close> is asked and \<open>usepath\<close> becomes the sub-directory
  \<^verbatim>\<open>01\<close>; otherwise the checker's \<^verbatim>\<open>is_complete\<close> is asked. The
  branch \<^verbatim>\<open>if errct > 0: pass\<close> does nothing.
\<close>

definition is_complete :: "'st env \<Rightarrow> 'st ingredient \<Rightarrow> ('st, bool) prog" where
  "is_complete env ing =
     (let kw = keywords ing in
      if program kw = ''vasp'' then
        pbind (case program_keys kw ''images'' of
                 Some images \<Rightarrow>
                   pbind (logcall (VC_images_complete (name kw) images)
                            (observe (vc_images_complete env (name kw) images)))
                     (\<lambda>mycomplete. return (mycomplete, name kw @ ''/01''))
               | None \<Rightarrow>
                   pbind (logcall (VC_is_complete (name kw))
                            (observe (vc_is_complete env (name kw))))
                     (\<lambda>mycomplete. return (mycomplete, name kw)))
          (\<lambda>(mycomplete, usepath).
             if mycomplete then return mycomplete
             else
               pbind (observe (os_path_exists (usepath @ ''/OUTCAR''))) (\<lambda>started.
                 if \<not> started then return False
                 else
                   pbind (case program_keys kw ''images'' of
                            Some _ \<Rightarrow>
                              logcall (VE_loop_through_errors usepath (Some 1))
                                (mutate (ve_loop_through_errors env usepath (Some 1)))
                          | None \<Rightarrow>
                              logcall (VE_loop_through_errors usepath None)
                                (mutate (ve_loop_through_errors env usepath None)))
                     (\<lambda>errct.
                        pbind (if 0 < errct then return () else return ())
                          (\<lambda>_. return False))))
      else raise (MASTError (class_name ing) ''Program not recognized (in is_complete)''))"

text \<open>
  Modelled from the spec: the module \<^verbatim>\<open>dirutil\<close> is not among the sources.
  The lock is a marker per directory: \<^verbatim>\<open>lock_directory\<close> creates it (no
  change when it is there), \<^verbatim>\<open>unlock_directory\<close> removes it and
  \<^verbatim>\<open>directory_is_locked\<close> is a pure predicate on its presence.
\<close>

definition dirutil_directory_is_locked :: "path \<Rightarrow> world \<Rightarrow> error + bool" where
  "dirutil_directory_is_locked d w = Inr (abspath w d \<in> locked w)"

definition dirutil_lock_directory :: "path \<Rightarrow> world \<Rightarrow> (error + unit) \<times> world" where
  "dirutil_lock_directory d w = (Inr (), w\<lparr>locked := insert (abspath w d) (locked w)\<rparr>)"

definition dirutil_unlock_directory :: "path \<Rightarrow> world \<Rightarrow> (error + unit) \<times> world" where
  "dirutil_unlock_directory d w = (Inr (), w\<lparr>locked := locked w - {abspath w d}\<rparr>)"

definition directory_is_locked :: "'st ingredient \<Rightarrow> ('st, bool) prog" where
  "directory_is_locked ing = observe (dirutil_directory_is_locked (name (keywords ing)))"

definition lock_directory :: "'st ingredient \<Rightarrow> ('st, unit) prog" where
  "lock_directory ing = mutate (dirutil_lock_directory (name (keywords ing)))"

definition unlock_directory :: "'st ingredient \<Rightarrow> ('st, unit) prog" where
  "unlock_directory ing = mutate (dirutil_unlock_directory (name (keywords ing)))"

definition is_ready_to_run :: "'st env \<Rightarrow> 'st ingredient \<Rightarrow> ('st, bool) prog" where
  "is_ready_to_run env ing =
     pbind (directory_is_locked ing) (\<lambda>is_locked.
       if is_locked then return False
       else if program (keywords ing) = ''vasp'' then
         logcall (VC_is_ready_to_run (name (keywords ing)))
           (observe (vc_is_ready_to_run env (name (keywords ing))))
       else raise (MASTError (class_name ing) ''Program not recognized (in is_complete)''))"

definition set_up_program_input :: "'st env \<Rightarrow> 'st ingredient \<Rightarrow> ('st, pyval) prog" where
  "set_up_program_input env ing =
     (if program (keywords ing) = ''vasp'' then
        logcall (VC_set_up_program_input (keywords ing))
          (mutate (vc_set_up_program_input env (keywords ing)))
      else raise (MASTError (class_name ing)
                   ''Program not recognized (in set_up_program_input)''))"

text \<open>
  \<^verbatim>\<open>get_path_to_write_neb_parent_energy\<close>: the arguments are evaluated
  before the call, so a missing \<^verbatim>\<open>images\<close> key is a \<^verbatim>\<open>KeyError\<close>.
\<close>

definition get_path_to_write_neb_parent_energy ::
  "'st env \<Rightarrow> 'st ingredient \<Rightarrow> pyval \<Rightarrow> ('st, path) prog" where
  "get_path_to_write_neb_parent_energy env ing parent =
     (let kw = keywords ing in
      if program kw = ''vasp'' then
        (case program_keys kw ''images'' of
           None \<Rightarrow> raise (KeyError ''images'')
         | Some images \<Rightarrow>
             logcall (VC_get_path_to_write_neb_parent_energy (name kw) images parent)
               (observe (vc_get_path_to_write_neb_parent_energy env (name kw) images parent)))
      else raise (MASTError (class_name ing)
                   ''Program not recognized (in get_path_to_write_neb_parent_energy)''))"

definition set_up_program_input_neb ::
  "'st env \<Rightarrow> 'st ingredient \<Rightarrow> 'st list \<Rightarrow> ('st, pyval) prog" where
  "set_up_program_input_neb env ing image_structures =
     (if program (keywords ing) = ''vasp'' then
        logcall (VC_set_up_program_input_neb (keywords ing) image_structures)
          (mutate (vc_set_up_program_input_neb env (keywords ing) image_structures))
      else raise (MASTError (class_name ing) ''Program not recognized (in set_up_neb)''))"

section \<open>Children\<close>

text \<open>
  Dictionaries are objects: the store is the list of the dictionary objects
  allocated so far, a reference is an index into it, and a new object is
  appended. A dictionary is an association list with distinct keys. A
  reference held by a live object always points into the store.
\<close>

type_synonym 'c dict = "(string \<times> 'c) list"

type_synonym 'c store = "'c dict list"

text \<open>\<^verbatim>\<open>d[k] = v\<close> and \<^verbatim>\<open>del d[k]\<close> on the dictionary at reference \<open>r\<close>.\<close>

definition dict_setitem :: "nat \<Rightarrow> string \<Rightarrow> 'c \<Rightarrow> 'c store \<Rightarrow> 'c store" where
  "dict_setitem r k v h = h[r := AList.update k v (h ! r)]"

definition dict_delitem :: "nat \<Rightarrow> string \<Rightarrow> 'c store \<Rightarrow> error + 'c store" where
  "dict_delitem r k h =
     (if map_of (h ! r) k = None then Inl (KeyError k)
      else Inr (h[r := AList.delete k (h ! r)]))"

text \<open>
  \<^verbatim>\<open>get_children\<close>: an empty dictionary and \<^verbatim>\<open>None\<close> are both false in
  the test; \<^verbatim>\<open>copy()\<close> allocates a new dictionary with the same entries.
  The result is \<^verbatim>\<open>None\<close> or the reference to the copy.
\<close>

definition get_children :: "'st ingredient \<Rightarrow> 'c store \<Rightarrow> nat option \<times> 'c store" where
  "get_children ing h =
     (case child_dict (keywords ing) of
        None \<Rightarrow> (None, h)
      | Some r \<Rightarrow> (if h ! r \<noteq> [] then (Some (length h), h @ [h ! r]) else (None, h)))"

section \<open>Example configurations\<close>

text \<open>
  A small world (\<^verbatim>\<open>/home\<close> with the job directory \<^verbatim>\<open>/home/job\<close>, which
  has started to write output), collaborators that answer "not complete",
  report two error signatures and let the subprocess exit with status 1, and
  ingredients of class \<^verbatim>\<open>Optimize\<close> in that directory.
\<close>

definition with_artifacts :: "path set \<Rightarrow> path set \<Rightarrow> 'st pystate \<Rightarrow> 'st pystate" where
  "with_artifacts D F s = s\<lparr>world := (world s)\<lparr>dirs := D, files := F\<rparr>\<rparr>"

definition demo_world :: world where
  "demo_world = \<lparr>dirs = {''/home'', ''/home/job'', ''/home/job/01''},
     files = {''/home/job/OUTCAR'', ''/home/job/01/OUTCAR''},
     locked = {}, cwd = ''/home'', stdout = []\<rparr>"

definition demo_state :: "string pystate" where
  "demo_state = \<lparr>world = demo_world, calls = []\<rparr>"

definition demo_env :: "string env" where
  "demo_env = \<lparr>
     vc_get_structure_from_file = (\<lambda>p w. Inr p),
     vc_forward_parent_structure =
       (\<lambda>p c n w. (Inr (), w\<lparr>files := insert (abspath w c @ ''/'' @ n) (files w)\<rparr>)),
     vc_forward_parent_energy =
       (\<lambda>p c n w. (Inr (), w\<lparr>files := insert (abspath w c @ ''/'' @ n) (files w)\<rparr>)),
     vc_images_complete = (\<lambda>p n w. Inr False),
     vc_is_complete = (\<lambda>p w. Inr False),
     vc_is_ready_to_run = (\<lambda>p w. Inr (abspath w p @ ''/INCAR'' \<in> files w)),
     vc_set_up_program_input = (\<lambda>k w. (Inr PyNone, w)),
     vc_get_path_to_write_neb_parent_energy = (\<lambda>p n x w. Inr (p @ ''/00'')),
     vc_set_up_program_input_neb = (\<lambda>k i w. (Inr PyNone, w)),
     ve_loop_through_errors = (\<lambda>p i w. (Inr 2, w)),
     qc_direct_shell_command = (\<lambda>w. Inr ''./submit.sh''),
     qc_queue_submission_command = (\<lambda>w. Inr ''qsub submit.sh''),
     popen_wait = (\<lambda>c w. (Inr 1, w))\<rparr>"

definition failing_env :: "string env" where
  "failing_env = demo_env\<lparr>popen_wait := (\<lambda>c w. (Inl OSError, w))\<rparr>"

definition complete_env :: "string env" where
  "complete_env = demo_env\<lparr>vc_images_complete := (\<lambda>p n w. Inr True)\<rparr>"

definition demo_ingredient :: "string \<Rightarrow> string ingredient" where
  "demo_ingredient prog = \<lparr>class_name = ''Optimize'',
     keywords = \<lparr>name = ''job'', program = prog, program_keys = Map.empty,
       structure = None, child_dict = None\<rparr>\<rparr>"

definition demo_neb :: "string ingredient" where
  "demo_neb = \<lparr>class_name = ''Optimize'',
     keywords = \<lparr>name = ''job'', program = ''vasp'',
       program_keys = [''images'' \<mapsto> PyInt 3], structure = None, child_dict = None\<rparr>\<rparr>"

definition demo_parent :: "string ingredient" where
  "demo_parent = \<lparr>class_name = ''Optimize'',
     keywords = \<lparr>name = ''job'', program = ''vasp'', program_keys = Map.empty,
       structure = None, child_dict = Some 0\<rparr>\<rparr>"

section \<open>Properties\<close>

subsection \<open>Program dispatch\<close>

text \<open>
  C1: when the \<^verbatim>\<open>program\<close> value is not \<^verbatim>\<open>vasp\<close>, each of
  \<^verbatim>\<open>get_structure_from_file\<close>, \<^verbatim>\<open>forward_parent_structure\<close>,
  \<^verbatim>\<open>forward_parent_energy\<close>, \<^verbatim>\<open>is_complete\<close>,
  \<^verbatim>\<open>set_up_program_input\<close>, \<^verbatim>\<open>set_up_program_input_neb\<close>,
  \<^verbatim>\<open>get_path_to_write_neb_parent_energy\<close> and, on a directory that is
  not locked, \<^verbatim>\<open>is_ready_to_run\<close> raises \<^verbatim>\<open>MASTError\<close> with the
  ingredient's class name; no collaborator is called and the world is left
  as it was.
\<close>

theorem unrecognized_program_raises:
  assumes "program (keywords ing) \<noteq> ''vasp''"
  shows "(\<exists>m. get_structure_from_file env ing filepath s
                = (Inl (MASTError (class_name ing) m), s))
       \<and> (\<exists>m. forward_parent_structure env ing parentpath childpath newname s
                = (Inl (MASTError (class_name ing) m), s))
       \<and> (\<exists>m. forward_parent_energy env ing parentpath childpath newname s
                = (Inl (MASTError (class_name ing) m), s))
       \<and> (\<exists>m. is_complete env ing s = (Inl (MASTError (class_name ing) m), s))
       \<and> (\<exists>m. set_up_program_input env ing s = (Inl (MASTError (class_name ing) m), s))
       \<and> (\<exists>m. set_up_program_input_neb env ing image_structures s
                = (Inl (MASTError (class_name ing) m), s))
       \<and> (\<exists>m. get_path_to_write_neb_parent_energy env ing parent s
                = (Inl (MASTError (class_name ing) m), s))
       \<and> (directory_is_locked ing s = (Inr False, s) \<longrightarrow>
            (\<exists>m. is_ready_to_run env ing s = (Inl (MASTError (class_name ing) m), s)))"
  using assms
  by (simp add: get_structure_from_file_def forward_parent_structure_def
        forward_parent_energy_def is_complete_def set_up_program_input_def
        set_up_program_input_neb_def get_path_to_write_neb_parent_energy_def
        is_ready_to_run_def raise_def pbind_def return_def)

text \<open>The program \<^verbatim>\<open>abinit\<close> on the unlocked example directory.\<close>

theorem unrecognized_program_raises_witness:
  "program (keywords (demo_ingredient ''abinit'')) \<noteq> ''vasp''
   \<and> directory_is_locked (demo_ingredient ''abinit'') demo_state = (Inr False, demo_state)
   \<and> (\<exists>m. get_structure_from_file demo_env (demo_ingredient ''abinit'') ''POSCAR'' demo_state
            = (Inl (MASTError ''Optimize'' m), demo_state))
   \<and> (\<exists>m. forward_parent_structure demo_env (demo_ingredient ''abinit'') ''parent'' ''child''
              ''POSCAR'' demo_state
            = (Inl (MASTError ''Optimize'' m), demo_state))
   \<and> (\<exists>m. forward_parent_energy demo_env (demo_ingredient ''abinit'') ''parent'' ''child''
              ''POSCAR'' demo_state
            = (Inl (MASTError ''Optimize'' m), demo_state))
   \<and> (\<exists>m. is_complete demo_env (demo_ingredient ''abinit'') demo_state
            = (Inl (MASTError ''Optimize'' m), demo_state))
   \<and> (\<exists>m. set_up_program_input demo_env (demo_ingredient ''abinit'') demo_state
            = (Inl (MASTError ''Optimize'' m), demo_state))
   \<and> (\<exists>m. set_up_program_input_neb demo_env (demo_ingredient ''abinit'') [] demo_state
            = (Inl (MASTError ''Optimize'' m), demo_state))
   \<and> (\<exists>m. get_path_to_write_neb_parent_energy demo_env (demo_ingredient ''abinit'') (PyInt 1)
              demo_state
            = (Inl (MASTError ''Optimize'' m), demo_state))
   \<and> (\<exists>m. is_ready_to_run demo_env (demo_ingredient ''abinit'') demo_state
            = (Inl (MASTError ''Optimize'' m), demo_state))"
proof -
  have p: "program (keywords (demo_ingredient ''abinit'')) \<noteq> ''vasp''"
    by (simp add: demo_ingredient_def)
  have c: "class_name (demo_ingredient ''abinit'') = ''Optimize''"
    by (simp add: demo_ingredient_def)
  have l: "directory_is_locked (demo_ingredient ''abinit'') demo_state = (Inr False, demo_state)"
    by (simp add: directory_is_locked_def observe_def dirutil_directory_is_locked_def
          demo_ingredient_def demo_state_def demo_world_def abspath_def is_abs_def)
  from unrecognized_program_raises [OF p, where env = demo_env and s = demo_state
      and filepath = "''POSCAR''" and parentpath = "''parent''" and childpath = "''child''"
      and newname = "''POSCAR''" and image_structures = "[]" and parent = "PyInt 1"] p c l
  show ?thesis by simp
qed

text \<open>
  C6, evaluated: the error raised by \<^verbatim>\<open>forward_parent_energy\<close> names
  \<^verbatim>\<open>forward_parent_structure\<close>, the one raised by \<^verbatim>\<open>is_ready_to_run\<close>
  names \<^verbatim>\<open>is_complete\<close>, and the one raised by
  \<^verbatim>\<open>set_up_program_input_neb\<close> names \<^verbatim>\<open>set_up_neb\<close>; none of the
  three messages contains the name of the method that raised it.
\<close>

theorem dispatch_error_names_other_method:
  "forward_parent_energy demo_env (demo_ingredient ''abinit'') ''parent'' ''child'' ''OSZICAR''
     demo_state
     = (Inl (MASTError ''Optimize'' ''Program not recognized (in forward_parent_structure)''),
        demo_state)
   \<and> \<not> sublist ''forward_parent_energy'' ''Program not recognized (in forward_parent_structure)''
   \<and> is_ready_to_run demo_env (demo_ingredient ''abinit'') demo_state
     = (Inl (MASTError ''Optimize'' ''Program not recognized (in is_complete)''), demo_state)
   \<and> \<not> sublist ''is_ready_to_run'' ''Program not recognized (in is_complete)''
   \<and> set_up_program_input_neb demo_env (demo_ingredient ''abinit'') [] demo_state
     = (Inl (MASTError ''Optimize'' ''Program not recognized (in set_up_neb)''), demo_state)
   \<and> \<not> sublist ''set_up_program_input_neb'' ''Program not recognized (in set_up_neb)''"
proof -
  have a: "forward_parent_energy demo_env (demo_ingredient ''abinit'') ''parent'' ''child''
      ''OSZICAR'' demo_state
     = (Inl (MASTError ''Optimize'' ''Program not recognized (in forward_parent_structure)''),
        demo_state)"
    by (simp add: forward_parent_energy_def demo_ingredient_def raise_def)
  have b: "is_ready_to_run demo_env (demo_ingredient ''abinit'') demo_state
     = (Inl (MASTError ''Optimize'' ''Program not recognized (in is_complete)''), demo_state)"
    by (simp add: is_ready_to_run_def directory_is_locked_def observe_def
          dirutil_directory_is_locked_def pbind_def raise_def demo_ingredient_def
          demo_state_def demo_world_def abspath_def is_abs_def)
  have c: "set_up_program_input_neb demo_env (demo_ingredient ''abinit'') [] demo_state
     = (Inl (MASTError ''Optimize'' ''Program not recognized (in set_up_neb)''), demo_state)"
    by (simp add: set_up_program_input_neb_def demo_ingredient_def raise_def)
  have a': "\<not> sublist ''forward_parent_energy''
      ''Program not recognized (in forward_parent_structure)''"
    by code_simp
  have b': "\<not> sublist ''is_ready_to_run'' ''Program not recognized (in is_complete)''"
    by code_simp
  have c': "\<not> sublist ''set_up_program_input_neb'' ''Program not recognized (in set_up_neb)''"
    by code_simp
  from a b c a' b' c' show ?thesis by blast
qed

subsection \<open>Locking and readiness\<close>

lemma locked_not_ready:
  "directory_is_locked ing s = (Inr True, s) \<Longrightarrow> is_ready_to_run env ing s = (Inr False, s)"
  by (simp add: is_ready_to_run_def pbind_def return_def)

text \<open>
  C2, as the code has it: whatever directories and files exist afterwards,
  after \<^verbatim>\<open>lock_directory\<close> the lock predicate is true and
  \<^verbatim>\<open>is_ready_to_run\<close> returns false with no call logged; after
  \<^verbatim>\<open>unlock_directory\<close> the lock predicate is false, and
  \<^verbatim>\<open>is_ready_to_run\<close> is the checker's readiness predicate on the job
  directory when the program is \<^verbatim>\<open>vasp\<close>, and raises \<^verbatim>\<open>MASTError\<close>
  for any other program.
\<close>

theorem lock_discipline:
  "directory_is_locked ing (with_artifacts D F (snd (lock_directory ing s)))
     = (Inr True, with_artifacts D F (snd (lock_directory ing s)))
   \<and> is_ready_to_run env ing (with_artifacts D F (snd (lock_directory ing s)))
     = (Inr False, with_artifacts D F (snd (lock_directory ing s)))
   \<and> directory_is_locked ing (with_artifacts D F (snd (unlock_directory ing s)))
     = (Inr False, with_artifacts D F (snd (unlock_directory ing s)))
   \<and> (program (keywords ing) = ''vasp'' \<longrightarrow>
        is_ready_to_run env ing (with_artifacts D F (snd (unlock_directory ing s)))
        = (vc_is_ready_to_run env (name (keywords ing))
             (world (with_artifacts D F (snd (unlock_directory ing s)))),
           (with_artifacts D F (snd (unlock_directory ing s)))
             \<lparr>calls := calls s @ [VC_is_ready_to_run (name (keywords ing))]\<rparr>))
   \<and> (program (keywords ing) \<noteq> ''vasp'' \<longrightarrow>
        is_ready_to_run env ing (with_artifacts D F (snd (unlock_directory ing s)))
        = (Inl (MASTError (class_name ing) ''Program not recognized (in is_complete)''),
           with_artifacts D F (snd (unlock_directory ing s))))"
proof -
  let ?l = "with_artifacts D F (snd (lock_directory ing s))"
  let ?u = "with_artifacts D F (snd (unlock_directory ing s))"
  have l: "directory_is_locked ing ?l = (Inr True, ?l)"
    by (simp add: directory_is_locked_def lock_directory_def observe_def mutate_def
          dirutil_directory_is_locked_def dirutil_lock_directory_def with_artifacts_def
          abspath_def)
  have u: "directory_is_locked ing ?u = (Inr False, ?u)"
    by (simp add: directory_is_locked_def unlock_directory_def observe_def mutate_def
          dirutil_directory_is_locked_def dirutil_unlock_directory_def with_artifacts_def
          abspath_def)
  have c: "calls ?u = calls s"
    by (simp add: unlock_directory_def mutate_def dirutil_unlock_directory_def
          with_artifacts_def)
  show ?thesis
    using l u c locked_not_ready [OF l]
    by (simp add: is_ready_to_run_def pbind_def return_def raise_def logcall_def observe_def)
qed

text \<open>
  The example directory with an \<^verbatim>\<open>INCAR\<close> file: ready for \<^verbatim>\<open>vasp\<close>
  once unlocked, an error for \<^verbatim>\<open>abinit\<close>.
\<close>

theorem lock_discipline_witness:
  "program (keywords (demo_ingredient ''vasp'')) = ''vasp''
   \<and> program (keywords (demo_ingredient ''abinit'')) \<noteq> ''vasp''
   \<and> fst (is_ready_to_run demo_env (demo_ingredient ''vasp'')
        (with_artifacts {''/home'', ''/home/job''} {''/home/job/INCAR''}
           (snd (lock_directory (demo_ingredient ''vasp'') demo_state)))) = Inr False
   \<and> fst (is_ready_to_run demo_env (demo_ingredient ''vasp'')
        (with_artifacts {''/home'', ''/home/job''} {''/home/job/INCAR''}
           (snd (unlock_directory (demo_ingredient ''vasp'') demo_state)))) = Inr True
   \<and> fst (is_ready_to_run demo_env (demo_ingredient ''abinit'')
        (with_artifacts {''/home'', ''/home/job''} {''/home/job/INCAR''}
           (snd (unlock_directory (demo_ingredient ''abinit'') demo_state))))
       = Inl (MASTError ''Optimize'' ''Program not recognized (in is_complete)'')"
proof -
  have v: "program (keywords (demo_ingredient ''vasp'')) = ''vasp''"
    by (simp add: demo_ingredient_def)
  have a: "program (keywords (demo_ingredient ''abinit'')) \<noteq> ''vasp''"
    by (simp add: demo_ingredient_def)
  have r: "vc_is_ready_to_run demo_env (name (keywords (demo_ingredient ''vasp'')))
      (world (with_artifacts {''/home'', ''/home/job''} {''/home/job/INCAR''}
         (snd (unlock_directory (demo_ingredient ''vasp'') demo_state)))) = Inr True"
    by (simp add: demo_env_def demo_ingredient_def with_artifacts_def unlock_directory_def
          mutate_def dirutil_unlock_directory_def demo_state_def demo_world_def abspath_def
          is_abs_def)
  from lock_discipline [of "demo_ingredient ''vasp''" "{''/home'', ''/home/job''}"
      "{''/home/job/INCAR''}" demo_state demo_env]
    lock_discipline [of "demo_ingredient ''abinit''" "{''/home'', ''/home/job''}"
      "{''/home/job/INCAR''}" demo_state demo_env] v a r
  show ?thesis by (simp add: demo_ingredient_def)
qed

text \<open>
  C2 as stated, for every ingredient, fails where the program is not
  \<^verbatim>\<open>vasp\<close>: on the unlocked directory \<^verbatim>\<open>is_ready_to_run\<close> raises, while
  the checker's readiness predicate answers false.
\<close>

theorem unlocked_unrecognized_program_not_decided_by_checker:
  "fst (is_ready_to_run demo_env (demo_ingredient ''abinit'')
          (snd (unlock_directory (demo_ingredient ''abinit'') demo_state)))
     = Inl (MASTError ''Optimize'' ''Program not recognized (in is_complete)'')
   \<and> vc_is_ready_to_run demo_env (name (keywords (demo_ingredient ''abinit'')))
        (world (snd (unlock_directory (demo_ingredient ''abinit'') demo_state)))
     = Inr False
   \<and> fst (is_ready_to_run demo_env (demo_ingredient ''abinit'')
          (snd (unlock_directory (demo_ingredient ''abinit'') demo_state)))
     \<noteq> vc_is_ready_to_run demo_env (name (keywords (demo_ingredient ''abinit'')))
        (world (snd (unlock_directory (demo_ingredient ''abinit'') demo_state)))"
  by (simp add: is_ready_to_run_def directory_is_locked_def unlock_directory_def observe_def
        mutate_def dirutil_directory_is_locked_def dirutil_unlock_directory_def pbind_def
        raise_def demo_env_def demo_ingredient_def demo_state_def demo_world_def abspath_def
        is_abs_def)

subsection \<open>Completion\<close>

text \<open>
  C3: for a \<^verbatim>\<open>vasp\<close> ingredient whose checker reports "not complete",
  \<^verbatim>\<open>is_complete\<close> returns false. When \<^verbatim>\<open>OUTCAR\<close> is missing under
  the probed directory the only call made is the checker's and the world is
  as it was; when it is there the error handler is asked once, and whatever
  count \<open>errct\<close> it returns the result is false, no further call (no
  submission, no subprocess) is made and the world is the one \<open>w'\<close> the
  handler's scan left. Both for a single directory and for a job with
  \<^verbatim>\<open>images\<close>.
\<close>

theorem incomplete_run_is_not_complete:
  assumes "program (keywords ing) = ''vasp''"
  shows "(program_keys (keywords ing) ''images'' = None
          \<and> vc_is_complete env (name (keywords ing)) (world s) = Inr False
          \<and> os_path_exists (name (keywords ing) @ ''/OUTCAR'') (world s) = Inr False
          \<longrightarrow> is_complete env ing s
              = (Inr False, s\<lparr>calls := calls s @ [VC_is_complete (name (keywords ing))]\<rparr>))
       \<and> (program_keys (keywords ing) ''images'' = None
          \<and> vc_is_complete env (name (keywords ing)) (world s) = Inr False
          \<and> os_path_exists (name (keywords ing) @ ''/OUTCAR'') (world s) = Inr True
          \<and> ve_loop_through_errors env (name (keywords ing)) None (world s) = (Inr errct, w')
          \<longrightarrow> is_complete env ing s
              = (Inr False,
                 s\<lparr>world := w',
                   calls := calls s @ [VC_is_complete (name (keywords ing)),
                     VE_loop_through_errors (name (keywords ing)) None]\<rparr>))
       \<and> (program_keys (keywords ing) ''images'' = Some images
          \<and> vc_images_complete env (name (keywords ing)) images (world s) = Inr False
          \<and> os_path_exists (name (keywords ing) @ ''/01/OUTCAR'') (world s) = Inr False
          \<longrightarrow> is_complete env ing s
              = (Inr False,
                 s\<lparr>calls := calls s @ [VC_images_complete (name (keywords ing)) images]\<rparr>))
       \<and> (program_keys (keywords ing) ''images'' = Some images
          \<and> vc_images_complete env (name (keywords ing)) images (world s) = Inr False
          \<and> os_path_exists (name (keywords ing) @ ''/01/OUTCAR'') (world s) = Inr True
          \<and> ve_loop_through_errors env (name (keywords ing) @ ''/01'') (Some 1) (world s)
              = (Inr errct, w')
          \<longrightarrow> is_complete env ing s
              = (Inr False,
                 s\<lparr>world := w',
                   calls := calls s @ [VC_images_complete (name (keywords ing)) images,
                     VE_loop_through_errors (name (keywords ing) @ ''/01'') (Some 1)]\<rparr>))"
  using assms
  by (simp add: is_complete_def Let_def pbind_def return_def logcall_def observe_def
        mutate_def)

text \<open>
  The example directory, for a single job and for a job with three images:
  with \<^verbatim>\<open>OUTCAR\<close> present the handler's count 2 changes nothing; with
  no files the handler is not asked.
\<close>

theorem incomplete_run_is_not_complete_witness:
  "program (keywords (demo_ingredient ''vasp'')) = ''vasp''
   \<and> vc_is_complete demo_env ''job'' (world demo_state) = Inr False
   \<and> os_path_exists ''job/OUTCAR'' (world demo_state) = Inr True
   \<and> ve_loop_through_errors demo_env ''job'' None (world demo_state)
       = (Inr 2, world demo_state)
   \<and> is_complete demo_env (demo_ingredient ''vasp'') demo_state
       = (Inr False, demo_state\<lparr>calls := [VC_is_complete ''job'',
            VE_loop_through_errors ''job'' None]\<rparr>)
   \<and> os_path_exists ''job/OUTCAR'' (world (with_artifacts {''/home'', ''/home/job''} {} demo_state))
       = Inr False
   \<and> is_complete demo_env (demo_ingredient ''vasp'')
        (with_artifacts {''/home'', ''/home/job''} {} demo_state)
       = (Inr False, (with_artifacts {''/home'', ''/home/job''} {} demo_state)
            \<lparr>calls := [VC_is_complete ''job'']\<rparr>)
   \<and> program (keywords demo_neb) = ''vasp''
   \<and> program_keys (keywords demo_neb) ''images'' = Some (PyInt 3)
   \<and> is_complete demo_env demo_neb demo_state
       = (Inr False, demo_state\<lparr>calls := [VC_images_complete ''job'' (PyInt 3),
            VE_loop_through_errors ''job/01'' (Some 1)]\<rparr>)
   \<and> is_complete demo_env demo_neb (with_artifacts {''/home'', ''/home/job''} {} demo_state)
       = (Inr False, (with_artifacts {''/home'', ''/home/job''} {} demo_state)
            \<lparr>calls := [VC_images_complete ''job'' (PyInt 3)]\<rparr>)"
proof -
  have v: "program (keywords (demo_ingredient ''vasp'')) = ''vasp''"
    by (simp add: demo_ingredient_def)
  have k: "program_keys (keywords (demo_ingredient ''vasp'')) ''images'' = None"
    by (simp add: demo_ingredient_def)
  have n: "name (keywords (demo_ingredient ''vasp'')) = ''job''"
    by (simp add: demo_ingredient_def)
  have c: "vc_is_complete demo_env ''job'' w = Inr False" for w
    by (simp add: demo_env_def)
  have e: "ve_loop_through_errors demo_env d i w = (Inr 2, w)" for d i w
    by (simp add: demo_env_def)
  have v': "program (keywords demo_neb) = ''vasp''"
    by (simp add: demo_neb_def)
  have k': "program_keys (keywords demo_neb) ''images'' = Some (PyInt 3)"
    by (simp add: demo_neb_def)
  have n': "name (keywords demo_neb) = ''job''"
    by (simp add: demo_neb_def)
  have c': "vc_images_complete demo_env ''job'' (PyInt 3) w = Inr False" for w
    by (simp add: demo_env_def)
  have p': "os_path_exists ''job/01/OUTCAR'' (world demo_state) = Inr True"
    by (simp add: os_path_exists_def abspath_def is_abs_def demo_state_def demo_world_def)
  have q': "os_path_exists ''job/01/OUTCAR''
      (world (with_artifacts {''/home'', ''/home/job''} {} demo_state)) = Inr False"
    by (simp add: os_path_exists_def abspath_def is_abs_def with_artifacts_def demo_state_def
          demo_world_def)
  have p: "os_path_exists ''job/OUTCAR'' (world demo_state) = Inr True"
    by (simp add: os_path_exists_def abspath_def is_abs_def demo_state_def demo_world_def)
  have q: "os_path_exists ''job/OUTCAR''
      (world (with_artifacts {''/home'', ''/home/job''} {} demo_state)) = Inr False"
    by (simp add: os_path_exists_def abspath_def is_abs_def with_artifacts_def demo_state_def
          demo_world_def)
  have s0: "calls demo_state = []"
    by (simp add: demo_state_def)
  have s1: "calls (with_artifacts {''/home'', ''/home/job''} {} demo_state) = []"
    by (simp add: with_artifacts_def demo_state_def)
  from incomplete_run_is_not_complete [OF v, where env = demo_env and s = demo_state
      and errct = 2 and w' = "world demo_state"]
    incomplete_run_is_not_complete [OF v, where env = demo_env
      and s = "with_artifacts {''/home'', ''/home/job''} {} demo_state"]
    incomplete_run_is_not_complete [OF v', where env = demo_env and s = demo_state
      and errct = 2 and w' = "world demo_state" and images = "PyInt 3"]
    incomplete_run_is_not_complete [OF v', where env = demo_env
      and s = "with_artifacts {''/home'', ''/home/job''} {} demo_state"
      and images = "PyInt 3"]
    v k n c e p q s0 s1 v' k' n' c' p' q'
  show ?thesis by simp
qed

lemma is_complete_images:
  assumes "program (keywords ing) = ''vasp''"
      and "program_keys (keywords ing) ''images'' = Some images"
  shows "is_complete env ing s =
     (case vc_images_complete env (name (keywords ing)) images (world s) of
        Inl e \<Rightarrow>
          (Inl e, s\<lparr>calls := calls s @ [VC_images_complete (name (keywords ing)) images]\<rparr>)
      | Inr mycomplete \<Rightarrow>
          if mycomplete
          then (Inr True, s\<lparr>calls := calls s @ [VC_images_complete (name (keywords ing)) images]\<rparr>)
          else if os_path_exists (name (keywords ing) @ ''/01/OUTCAR'') (world s) = Inr True
          then (case ve_loop_through_errors env (name (keywords ing) @ ''/01'') (Some 1)
                       (world s) of
                  (r, w') \<Rightarrow>
                    (case r of Inl e \<Rightarrow> Inl e | Inr errct \<Rightarrow> Inr False,
                     s\<lparr>world := w',
                       calls := calls s @ [VC_images_complete (name (keywords ing)) images,
                         VE_loop_through_errors (name (keywords ing) @ ''/01'') (Some 1)]\<rparr>))
          else (Inr False,
                s\<lparr>calls := calls s @ [VC_images_complete (name (keywords ing)) images]\<rparr>))"
  using assms
  by (simp add: is_complete_def Let_def pbind_def return_def logcall_def observe_def
        mutate_def os_path_exists_def split: sum.splits prod.splits)

text \<open>
  C4: for a \<^verbatim>\<open>vasp\<close> ingredient with \<^verbatim>\<open>images\<close> among its program keys,
  \<^verbatim>\<open>is_complete\<close> first asks the checker's \<^verbatim>\<open>images_complete\<close> with the
  job directory and the image count, and makes no other call than, possibly,
  the error handler's on the sub-directory \<^verbatim>\<open>01\<close> restricted to one
  image. When the checker answers "not complete", \<^verbatim>\<open>01/OUTCAR\<close> is the
  file that decides whether the handler is asked, and the world afterwards
  is the one the handler's scan left. When the checker answers "complete",
  the result is true, with no further call and the world as it was; when
  the checker raises, so does \<^verbatim>\<open>is_complete\<close>. The result is true
  only if \<^verbatim>\<open>images_complete\<close> answered true.
\<close>

theorem images_completion_check:
  assumes "program (keywords ing) = ''vasp''"
      and "program_keys (keywords ing) ''images'' = Some images"
  shows "(\<exists>rest. calls (snd (is_complete env ing s))
                 = calls s @ VC_images_complete (name (keywords ing)) images # rest
               \<and> set rest \<subseteq> {VE_loop_through_errors (name (keywords ing) @ ''/01'') (Some 1)})
       \<and> (vc_images_complete env (name (keywords ing)) images (world s) = Inr False \<longrightarrow>
            is_complete env ing s =
              (if os_path_exists (name (keywords ing) @ ''/01/OUTCAR'') (world s) = Inr True
               then (case ve_loop_through_errors env (name (keywords ing) @ ''/01'') (Some 1)
                            (world s) of
                       (r, w') \<Rightarrow>
                         (case r of Inl e \<Rightarrow> Inl e | Inr errct \<Rightarrow> Inr False,
                          s\<lparr>world := w',
                            calls := calls s @ [VC_images_complete (name (keywords ing)) images,
                              VE_loop_through_errors (name (keywords ing) @ ''/01'') (Some 1)]\<rparr>))
               else (Inr False,
                     s\<lparr>calls := calls s @ [VC_images_complete (name (keywords ing)) images]\<rparr>)))
       \<and> (vc_images_complete env (name (keywords ing)) images (world s) = Inr True \<longrightarrow>
            is_complete env ing s =
              (Inr True,
               s\<lparr>calls := calls s @ [VC_images_complete (name (keywords ing)) images]\<rparr>))
       \<and> (vc_images_complete env (name (keywords ing)) images (world s) = Inl err \<longrightarrow>
            is_complete env ing s =
              (Inl err,
               s\<lparr>calls := calls s @ [VC_images_complete (name (keywords ing)) images]\<rparr>))
       \<and> (fst (is_complete env ing s) = Inr True \<longrightarrow>
            vc_images_complete env (name (keywords ing)) images (world s) = Inr True)"
proof (intro conjI impI)
  show "\<exists>rest. calls (snd (is_complete env ing s))
                 = calls s @ VC_images_complete (name (keywords ing)) images # rest
               \<and> set rest \<subseteq> {VE_loop_through_errors (name (keywords ing) @ ''/01'') (Some 1)}"
    by (simp add: is_complete_images [OF assms] split: sum.splits prod.splits)
next
  assume "vc_images_complete env (name (keywords ing)) images (world s) = Inr False"
  then show "is_complete env ing s =
      (if os_path_exists (name (keywords ing) @ ''/01/OUTCAR'') (world s) = Inr True
       then (case ve_loop_through_errors env (name (keywords ing) @ ''/01'') (Some 1)
                    (world s) of
               (r, w') \<Rightarrow>
                 (case r of Inl e \<Rightarrow> Inl e | Inr errct \<Rightarrow> Inr False,
                  s\<lparr>world := w',
                    calls := calls s @ [VC_images_complete (name (keywords ing)) images,
                      VE_loop_through_errors (name (keywords ing) @ ''/01'') (Some 1)]\<rparr>))
       else (Inr False,
             s\<lparr>calls := calls s @ [VC_images_complete (name (keywords ing)) images]\<rparr>))"
    by (simp add: is_complete_images [OF assms])
next
  assume "vc_images_complete env (name (keywords ing)) images (world s) = Inr True"
  then show "is_complete env ing s =
      (Inr True, s\<lparr>calls := calls s @ [VC_images_complete (name (keywords ing)) images]\<rparr>)"
    by (simp add: is_complete_images [OF assms])
next
  assume "vc_images_complete env (name (keywords ing)) images (world s) = Inl err"
  then show "is_complete env ing s =
      (Inl err, s\<lparr>calls := calls s @ [VC_images_complete (name (keywords ing)) images]\<rparr>)"
    by (simp add: is_complete_images [OF assms])
next
  assume "fst (is_complete env ing s) = Inr True"
  then show "vc_images_complete env (name (keywords ing)) images (world s) = Inr True"
    by (simp add: is_complete_images [OF assms] split: sum.splits prod.splits if_splits)
qed

text \<open>
  The example job with three images: started but not complete under the
  example checker, complete under a checker that answers true.
\<close>

theorem images_completion_check_witness:
  "program (keywords demo_neb) = ''vasp''
   \<and> program_keys (keywords demo_neb) ''images'' = Some (PyInt 3)
   \<and> vc_images_complete demo_env ''job'' (PyInt 3) (world demo_state) = Inr False
   \<and> is_complete demo_env demo_neb demo_state
       = (Inr False, demo_state\<lparr>calls := [VC_images_complete ''job'' (PyInt 3),
            VE_loop_through_errors ''job/01'' (Some 1)]\<rparr>)
   \<and> vc_images_complete complete_env ''job'' (PyInt 3) (world demo_state) = Inr True
   \<and> is_complete complete_env demo_neb demo_state
       = (Inr True, demo_state\<lparr>calls := [VC_images_complete ''job'' (PyInt 3)]\<rparr>)"
proof -
  have v: "program (keywords demo_neb) = ''vasp''"
    by (simp add: demo_neb_def)
  have k: "program_keys (keywords demo_neb) ''images'' = Some (PyInt 3)"
    by (simp add: demo_neb_def)
  have n: "name (keywords demo_neb) = ''job''"
    by (simp add: demo_neb_def)
  have c: "vc_images_complete demo_env ''job'' (PyInt 3) (world demo_state) = Inr False"
    by (simp add: demo_env_def)
  have t: "vc_images_complete complete_env ''job'' (PyInt 3) (world demo_state) = Inr True"
    by (simp add: complete_env_def)
  have e: "ve_loop_through_errors demo_env ''job/01'' (Some 1) (world demo_state)
      = (Inr 2, world demo_state)"
    by (simp add: demo_env_def)
  have p: "os_path_exists ''job/01/OUTCAR'' (world demo_state) = Inr True"
    by (simp add: os_path_exists_def abspath_def is_abs_def demo_state_def demo_world_def)
  have s0: "calls demo_state = []"
    by (simp add: demo_state_def)
  from images_completion_check [OF v k, where env = demo_env and s = demo_state]
    images_completion_check [OF v k, where env = complete_env and s = demo_state]
    v k n c t e p s0
  show ?thesis by simp
qed

subsection \<open>Running\<close>

lemma run_result:
  "run env ing mode curdir s =
     (case os_getcwd (world s) of Inl e \<Rightarrow> (Inl e, s) | Inr c \<Rightarrow>
      (case os_chdir (name (keywords ing)) (world s) of
         (Inl e, w1) \<Rightarrow> (Inl e, s\<lparr>world := w1\<rparr>)
       | (Inr u, w1) \<Rightarrow>
          (case (if mode = ''noqsub'' then
              pbind (logcall QC_direct_shell_command (observe (qc_direct_shell_command env)))
                (\<lambda>programpath.
              pbind (logcall (Popen_wait programpath) (mutate (popen_wait env programpath)))
                (\<lambda>_. return ()))
            else if mode = ''serial'' then
              pbind (logcall QC_queue_submission_command
                       (observe (qc_queue_submission_command env)))
                (\<lambda>queuesub.
              pbind (logcall (Popen_wait queuesub) (mutate (popen_wait env queuesub)))
                (\<lambda>_. return ()))
            else return ()) (s\<lparr>world := w1\<rparr>) of
             (Inl e, s2) \<Rightarrow> (Inl e, s2)
           | (Inr u, s2) \<Rightarrow> mutate (os_chdir c) s2)))"
  by (simp add: run_def pbind_def observe_def mutate_def split: sum.splits prod.splits)

lemma chdir_abs:
  "is_abs c \<Longrightarrow> fst (mutate (os_chdir c) s2) = Inr () \<Longrightarrow>
     cwd (world (snd (mutate (os_chdir c) s2))) = c"
  by (simp add: mutate_def os_chdir_def abspath_def split: if_splits)

text \<open>
  C5, as the code has it: the working directory is an absolute path. When
  \<^verbatim>\<open>run\<close> returns normally, whatever the subprocess's exit status, the
  working directory is the one at entry. When \<^verbatim>\<open>os.getcwd\<close> or the
  change into the job directory fails, \<^verbatim>\<open>run\<close> raises \<^verbatim>\<open>OSError\<close>
  and the state is as at entry.
\<close>

theorem run_restores_cwd_on_return:
  assumes "is_abs (cwd (world s))"
  shows "(fst (run env ing mode curdir s) = Inr () \<longrightarrow>
            cwd (world (snd (run env ing mode curdir s))) = cwd (world s))
       \<and> (cwd (world s) \<notin> dirs (world s)
            \<or> abspath (world s) (name (keywords ing)) \<notin> dirs (world s) \<longrightarrow>
            run env ing mode curdir s = (Inl OSError, s))"
proof (intro conjI impI)
  assume ok: "fst (run env ing mode curdir s) = Inr ()"
  show "cwd (world (snd (run env ing mode curdir s))) = cwd (world s)"
    using ok assms chdir_abs [of "cwd (world s)"]
    by (auto simp add: run_result os_getcwd_def split: sum.splits prod.splits if_splits)
next
  assume "cwd (world s) \<notin> dirs (world s)
            \<or> abspath (world s) (name (keywords ing)) \<notin> dirs (world s)"
  then show "run env ing mode curdir s = (Inl OSError, s)"
    by (auto simp add: run_result os_getcwd_def os_chdir_def)
qed

text \<open>
  A direct run in the example directory whose subprocess exits with status
  1, and a run whose job directory does not exist.
\<close>

theorem run_restores_cwd_on_return_witness:
  "is_abs (cwd (world demo_state))
   \<and> fst (run demo_env (demo_ingredient ''vasp'') ''noqsub'' ''/elsewhere'' demo_state) = Inr ()
   \<and> cwd (world (snd (run demo_env (demo_ingredient ''vasp'') ''noqsub'' ''/elsewhere''
        demo_state))) = ''/home''
   \<and> abspath (world (with_artifacts {''/home''} {} demo_state))
        (name (keywords (demo_ingredient ''vasp'')))
       \<notin> dirs (world (with_artifacts {''/home''} {} demo_state))
   \<and> run demo_env (demo_ingredient ''vasp'') ''noqsub'' ''/elsewhere''
        (with_artifacts {''/home''} {} demo_state)
       = (Inl OSError, with_artifacts {''/home''} {} demo_state)"
proof -
  have a: "is_abs (cwd (world demo_state))"
    by (simp add: is_abs_def demo_state_def demo_world_def)
  have a': "is_abs (cwd (world (with_artifacts {''/home''} {} demo_state)))"
    by (simp add: is_abs_def with_artifacts_def demo_state_def demo_world_def)
  have c: "cwd (world demo_state) = ''/home''"
    by (simp add: demo_state_def demo_world_def)
  have r: "fst (run demo_env (demo_ingredient ''vasp'') ''noqsub'' ''/elsewhere'' demo_state)
      = Inr ()"
    by (simp add: run_def pbind_def return_def logcall_def observe_def mutate_def
          os_getcwd_def os_chdir_def abspath_def is_abs_def demo_env_def demo_ingredient_def
          demo_state_def demo_world_def)
  have m: "abspath (world (with_artifacts {''/home''} {} demo_state))
        (name (keywords (demo_ingredient ''vasp'')))
       \<notin> dirs (world (with_artifacts {''/home''} {} demo_state))"
    by (simp add: abspath_def is_abs_def with_artifacts_def demo_ingredient_def demo_state_def
          demo_world_def)
  from run_restores_cwd_on_return [OF a, where env = demo_env
      and ing = "demo_ingredient ''vasp''" and mode = "''noqsub''" and curdir = "''/elsewhere''"]
    run_restores_cwd_on_return [OF a', where env = demo_env
      and ing = "demo_ingredient ''vasp''" and mode = "''noqsub''" and curdir = "''/elsewhere''"]
    a c r m
  show ?thesis by simp
qed

text \<open>
  C5 as stated fails when the subprocess step raises: \<^verbatim>\<open>run\<close> raises
  with the job directory as the working directory, not the directory at
  entry.
\<close>

theorem run_failure_leaves_job_directory:
  "fst (run failing_env (demo_ingredient ''vasp'') ''noqsub'' ''/home'' demo_state) = Inl OSError
   \<and> cwd (world demo_state) = ''/home''
   \<and> cwd (world (snd (run failing_env (demo_ingredient ''vasp'') ''noqsub'' ''/home''
        demo_state))) = ''/home/job''"
  by (simp add: run_def pbind_def return_def logcall_def observe_def mutate_def
        os_getcwd_def os_chdir_def abspath_def is_abs_def failing_env_def demo_env_def
        demo_ingredient_def demo_state_def demo_world_def)

text \<open>
  C10: two calls of \<^verbatim>\<open>run\<close> that differ only in the \<open>curdir\<close> argument
  have the same outcome and leave the same state: the argument is overwritten
  with the working directory at entry before it is read.
\<close>

theorem run_ignores_curdir_argument:
  "run env ing mode curdir1 s = run env ing mode curdir2 s"
  by (simp add: run_def)

subsection \<open>Creating the directory\<close>

lemma write_directory_result:
  "write_directory ing s =
     (case os_makedirs (name (keywords ing)) (world s) of
        (Inl OSError, w') \<Rightarrow>
          (Inr (), s\<lparr>world := w'\<lparr>stdout := stdout w' @ [''Directory exists.'']\<rparr>\<rparr>)
      | (r, w') \<Rightarrow> (r, s\<lparr>world := w'\<rparr>))"
  by (simp add: write_directory_def try_except_OSError_def mutate_def pbind_def return_def
        print_def split: prod.splits sum.splits error.splits)

lemma os_makedirs_cases:
  "os_makedirs p w = (Inl OSError, w)
   \<or> (os_makedirs p w
        = (Inr (), w\<lparr>dirs := insert (abspath w p) (set (ancestors (abspath w p)) \<union> dirs w)\<rparr>)
      \<and> abspath w p \<notin> dirs w \<and> abspath w p \<notin> files w)"
  by (simp add: os_makedirs_def Let_def)

lemma write_directory_never_raises: "fst (write_directory ing s) = Inr ()"
  using os_makedirs_cases [of "name (keywords ing)" "world s"]
  by (auto simp add: write_directory_result)

lemma write_directory_existing:
  assumes "abspath (world s) (name (keywords ing)) \<in> dirs (world s)"
  shows "write_directory ing s =
      (Inr (), s\<lparr>world := (world s)\<lparr>stdout := stdout (world s) @ [''Directory exists.'']\<rparr>\<rparr>)"
  using assms by (simp add: write_directory_result os_makedirs_def)

lemma write_directory_keeps_cwd: "cwd (world (snd (write_directory ing s))) = cwd (world s)"
  using os_makedirs_cases [of "name (keywords ing)" "world s"]
  by (auto simp add: write_directory_result)

lemma write_directory_creates:
  assumes "abspath (world s) (name (keywords ing)) \<notin> dirs (world s)"
      and "abspath (world s) (name (keywords ing)) \<notin> files (world s)"
      and "set (ancestors (abspath (world s) (name (keywords ing)))) \<inter> files (world s) = {}"
  shows "abspath (world s) (name (keywords ing)) \<in> dirs (world (snd (write_directory ing s)))"
  using assms by (simp add: write_directory_result os_makedirs_def Let_def)

text \<open>
  C8: \<^verbatim>\<open>write_directory\<close> never raises, on the first call or on the
  second. On a directory that exists it prints one line and changes nothing
  else, so the directory is still there; a second call in a row finds the
  directory the first call left and keeps directories and files as they were.
  Where nothing is in the way, the first call creates the directory.
\<close>

theorem write_directory_idempotent:
  "fst (write_directory ing s) = Inr ()
   \<and> fst (write_directory ing (snd (write_directory ing s))) = Inr ()
   \<and> (abspath (world s) (name (keywords ing)) \<in> dirs (world s) \<longrightarrow>
        write_directory ing s =
          (Inr (), s\<lparr>world := (world s)\<lparr>stdout := stdout (world s) @ [''Directory exists.'']\<rparr>\<rparr>)
        \<and> abspath (world s) (name (keywords ing)) \<in> dirs (world (snd (write_directory ing s))))
   \<and> (abspath (world s) (name (keywords ing)) \<in> dirs (world (snd (write_directory ing s))) \<longrightarrow>
        abspath (world s) (name (keywords ing))
          \<in> dirs (world (snd (write_directory ing (snd (write_directory ing s)))))
        \<and> dirs (world (snd (write_directory ing (snd (write_directory ing s)))))
          = dirs (world (snd (write_directory ing s)))
        \<and> files (world (snd (write_directory ing (snd (write_directory ing s)))))
          = files (world (snd (write_directory ing s))))
   \<and> (abspath (world s) (name (keywords ing)) \<notin> dirs (world s)
      \<and> abspath (world s) (name (keywords ing)) \<notin> files (world s)
      \<and> set (ancestors (abspath (world s) (name (keywords ing)))) \<inter> files (world s) = {} \<longrightarrow>
        abspath (world s) (name (keywords ing)) \<in> dirs (world (snd (write_directory ing s))))"
proof -
  let ?s1 = "snd (write_directory ing s)"
  have a: "abspath (world ?s1) (name (keywords ing)) = abspath (world s) (name (keywords ing))"
    by (simp add: abspath_def write_directory_keeps_cwd)
  have b: "abspath (world s) (name (keywords ing)) \<in> dirs (world ?s1) \<Longrightarrow>
      write_directory ing ?s1 =
      (Inr (), ?s1\<lparr>world := (world ?s1)\<lparr>stdout := stdout (world ?s1) @ [''Directory exists.'']\<rparr>\<rparr>)"
    using write_directory_existing [of ?s1 ing] a by simp
  show ?thesis
    using b write_directory_creates [of s ing]
    by (auto simp add: write_directory_never_raises write_directory_existing)
qed

text \<open>
  The example directory exists; \<^verbatim>\<open>/home/job\<close> is created in a world that
  has only \<^verbatim>\<open>/home\<close>, and is there after the second call too.
\<close>

theorem write_directory_idempotent_witness:
  "abspath (world demo_state) (name (keywords (demo_ingredient ''vasp''))) \<in> dirs (world demo_state)
   \<and> write_directory (demo_ingredient ''vasp'') demo_state
       = (Inr (), demo_state\<lparr>world := (world demo_state)\<lparr>stdout := [''Directory exists.'']\<rparr>\<rparr>)
   \<and> ''/home/job'' \<notin> dirs (world (with_artifacts {''/home''} {} demo_state))
   \<and> ''/home/job''
       \<in> dirs (world (snd (write_directory (demo_ingredient ''vasp'')
            (with_artifacts {''/home''} {} demo_state))))
   \<and> ''/home/job''
       \<in> dirs (world (snd (write_directory (demo_ingredient ''vasp'')
            (snd (write_directory (demo_ingredient ''vasp'')
               (with_artifacts {''/home''} {} demo_state))))))"
proof -
  let ?i = "demo_ingredient ''vasp'' :: string ingredient"
  let ?t = "with_artifacts {''/home''} {} demo_state :: string pystate"
  have p: "abspath (world demo_state) (name (keywords ?i)) = ''/home/job''"
    by (simp add: abspath_def is_abs_def demo_ingredient_def demo_state_def demo_world_def)
  have p': "abspath (world ?t) (name (keywords ?i)) = ''/home/job''"
    by (simp add: abspath_def is_abs_def with_artifacts_def demo_ingredient_def demo_state_def
          demo_world_def)
  have d: "''/home/job'' \<in> dirs (world demo_state)"
    by (simp add: demo_state_def demo_world_def)
  have o: "stdout (world demo_state) = []"
    by (simp add: demo_state_def demo_world_def)
  have d': "''/home/job'' \<notin> dirs (world ?t)"
    by (simp add: with_artifacts_def demo_state_def demo_world_def)
  have f': "files (world ?t) = {}"
    by (simp add: with_artifacts_def demo_state_def demo_world_def)
  from write_directory_idempotent [of ?i demo_state] write_directory_idempotent [of ?i ?t]
    p p' d o d' f'
  show ?thesis by simp
qed

subsection \<open>Children\<close>

text \<open>
  C9: \<^verbatim>\<open>get_children\<close> returns \<^verbatim>\<open>None\<close> when \<^verbatim>\<open>child_dict\<close> is
  \<^verbatim>\<open>None\<close> or an empty dictionary, and allocates nothing. Otherwise it
  returns a reference \<open>r'\<close> to a new dictionary with the same entries; every
  dictionary that existed keeps its entries, and setting a key, deleting a key
  or replacing the whole content at \<open>r'\<close> leaves the ingredient's own
  dictionary at \<open>r\<close> as it was.
\<close>

theorem get_children_copy:
  "(child_dict (keywords ing) = None \<longrightarrow> get_children ing h = (None, h))
   \<and> (child_dict (keywords ing) = Some r \<and> r < length h \<and> h ! r = [] \<longrightarrow>
        get_children ing h = (None, h))
   \<and> (child_dict (keywords ing) = Some r \<and> r < length h \<and> h ! r \<noteq> [] \<longrightarrow>
        (\<exists>r' h'. get_children ing h = (Some r', h')
           \<and> r' \<noteq> r \<and> r' < length h' \<and> h' ! r' = h ! r
           \<and> (\<forall>i < length h. h' ! i = h ! i)
           \<and> (\<forall>k v. dict_setitem r' k v h' ! r = h ! r)
           \<and> (\<forall>k h''. dict_delitem r' k h' = Inr h'' \<longrightarrow> h'' ! r = h ! r)
           \<and> (\<forall>d. h'[r' := d] ! r = h ! r)))"
  by (auto simp add: get_children_def dict_setitem_def dict_delitem_def nth_append
        split: if_splits)

text \<open>
  A parent with one child: the copy is the second object of the store, and
  adding a key to it or deleting its key leaves the first object alone. A
  parent with an empty dictionary and an ingredient without one have no
  children.
\<close>

theorem get_children_copy_witness:
  "child_dict (keywords demo_parent) = Some 0
   \<and> 0 < length [[(''relax'', 7::nat)]]
   \<and> get_children demo_parent [[(''relax'', 7::nat)]]
       = (Some 1, [[(''relax'', 7)], [(''relax'', 7)]])
   \<and> dict_setitem 1 ''static'' 9 [[(''relax'', 7::nat)], [(''relax'', 7)]] ! 0 = [(''relax'', 7)]
   \<and> dict_delitem 1 ''relax'' [[(''relax'', 7::nat)], [(''relax'', 7)]]
       = Inr [[(''relax'', 7)], []]
   \<and> get_children demo_parent [[] :: nat dict] = (None, [[]])
   \<and> child_dict (keywords (demo_ingredient ''vasp'')) = None
   \<and> get_children (demo_ingredient ''vasp'') [[(''relax'', 7::nat)]]
       = (None, [[(''relax'', 7)]])"
proof -
  have c: "child_dict (keywords demo_parent) = Some 0"
    by (simp add: demo_parent_def)
  have g: "get_children demo_parent [[(''relax'', 7::nat)]]
       = (Some 1, [[(''relax'', 7)], [(''relax'', 7)]])"
    by (simp add: get_children_def demo_parent_def)
  have s: "dict_setitem 1 ''static'' 9 [[(''relax'', 7::nat)], [(''relax'', 7)]]
      = [[(''relax'', 7)], [(''relax'', 7), (''static'', 9)]]"
    by (simp add: dict_setitem_def)
  have d: "dict_delitem 1 ''relax'' [[(''relax'', 7::nat)], [(''relax'', 7)]]
       = Inr [[(''relax'', 7)], []]"
    by (simp add: dict_delitem_def)
  have n: "child_dict (keywords (demo_ingredient ''vasp'')) = None"
    by (simp add: demo_ingredient_def)
  from get_children_copy [of demo_parent "[[(''relax'', 7::nat)]]" 0]
    get_children_copy [of demo_parent "[[] :: nat dict]" 0]
    get_children_copy [of "demo_ingredient ''vasp''" "[[(''relax'', 7::nat)]]"] c g s d n
  show ?thesis by simp
qed

end
